theory Spec2Isabelle
  imports Complex_Main
begin

unbundle bit_operations_syntax

section \<open>Values and errors of the Python program\<close>

text \<open>
  The module \<open>ion_functions/data/generic_functions.py\<close> works on numpy arrays of
  float64. Finite floats are embedded as real numbers (rounding is not modelled); the
  non-finite values are separate constructors, because several functions of the module
  behave differently on them.
\<close>

datatype npfloat = Fin real | NaN | PosInf | NegInf

text \<open>The exceptions the module and the library calls it makes can raise.\<close>

datatype pyerr =
    IndexError
  | OverflowError
  | ValueError string
  | TypeError string
  | ResolutionError

text \<open>An argument that numpy broadcasts: a scalar or a one-dimensional array.\<close>

datatype 'a nparg = Scalar 'a | Array "'a list"

section \<open>\<open>extract_parameter\<close>\<close>

text \<open>
  \<^verbatim>\<open>out_value = in_array[index]\<close>: subscription of a one-dimensional numpy array by
  a Python integer. An index below zero counts from the end. An index outside
  \<open>-n .. n-1\<close> raises IndexError when it fits the signed 64-bit index type of numpy, and
  OverflowError when it does not. (An array has fewer than \<open>2^63\<close> elements, so an index
  inside the array always fits.)
\<close>

definition extract_parameter :: "'a list \<Rightarrow> int \<Rightarrow> pyerr + 'a" where
  "extract_parameter in_array index =
     (let n = int (length in_array) in
      if 0 \<le> index \<and> index < n then Inr (in_array ! nat index)
      else if - n \<le> index \<and> index < 0 then Inr (in_array ! nat (n + index))
      else if index < - (2 ^ 63) \<or> 2 ^ 63 \<le> index then Inl OverflowError
      else Inl IndexError)"

section \<open>\<open>ntp_to_unix_time\<close>\<close>

text \<open>
  The function computes its offset from two \<open>datetime.date\<close> values. Subtracting dates
  gives a \<open>timedelta\<close> of the difference of their proleptic Gregorian ordinals;
  \<open>total_seconds\<close> multiplies the days by 86400. The ordinal of a date is computed as
  \<open>date.toordinal\<close> does.
\<close>

definition is_leap :: "int \<Rightarrow> bool" where
  "is_leap y = (y mod 4 = 0 \<and> (y mod 100 \<noteq> 0 \<or> y mod 400 = 0))"

definition days_before_year :: "int \<Rightarrow> int" where
  "days_before_year year =
     (let y = year - 1 in y * 365 + y div 4 - y div 100 + y div 400)"

definition days_in_month :: "int \<Rightarrow> nat \<Rightarrow> int" where
  "days_in_month year month =
     (if month = 2 \<and> is_leap year then 29
      else [31, 28, 31, 30, 31, 30, 31, 31, 30, 31, 30, 31] ! (month - 1))"

definition days_before_month :: "int \<Rightarrow> nat \<Rightarrow> int" where
  "days_before_month year month = sum_list (map (days_in_month year) [1..<month])"

definition toordinal :: "int \<times> nat \<times> int \<Rightarrow> int" where
  "toordinal d = (case d of (year, month, day) \<Rightarrow>
     days_before_year year + days_before_month year month + day)"

text \<open>\<^verbatim>\<open>time.gmtime(0)[0:3]\<close>: the date of the system epoch.\<close>

definition gmtime0 :: "int \<times> nat \<times> int" where
  "gmtime0 = (1970, 1, 1)"

definition SYSTEM_EPOCH :: "int \<times> nat \<times> int" where
  "SYSTEM_EPOCH = gmtime0"

definition NTP_EPOCH :: "int \<times> nat \<times> int" where
  "NTP_EPOCH = (1900, 1, 1)"

definition NTP_DELTA :: real where
  "NTP_DELTA = of_int ((toordinal SYSTEM_EPOCH - toordinal NTP_EPOCH) * 86400)"

definition ntp_to_unix_time :: "real \<Rightarrow> real" where
  "ntp_to_unix_time ntp_timestamp = ntp_timestamp - NTP_DELTA"

section \<open>\<open>magnetic_correction\<close>\<close>

text \<open>
  The result of \<open>cor[0]\<close> and \<open>cor[1]\<close> is a one-dimensional array when \<open>theta\<close> is a
  scalar and a two-dimensional one when \<open>theta\<close> is an array, so both shapes are values
  of the model.
\<close>

datatype ndarray = Arr1 "real list" | Arr2 "real list list"

definition radians :: "real \<Rightarrow> real" where
  "radians d = d * pi / 180"

fun atleast_1d :: "'a nparg \<Rightarrow> 'a list" where
  "atleast_1d (Scalar x) = [x]"
| "atleast_1d (Array xs) = xs"

text \<open>
  \<open>np.dot(a, b)\<close> sums over the last axis of \<open>a\<close> and the second-to-last axis of \<open>b\<close>.
  \<open>dot_inner a B n\<close> is that sum for one vector \<open>a\<close> along the last axis and a matrix
  \<open>B\<close> with \<open>n\<close> columns: entry \<open>m\<close> is \<open>\<Sum>k. a[k] * B[k][m]\<close>.
\<close>

definition dot_inner :: "real list \<Rightarrow> real list list \<Rightarrow> nat \<Rightarrow> real list" where
  "dot_inner a B n = map (\<lambda>m. sum_list (map2 (\<lambda>ak row. ak * row ! m) a B)) [0..<n]"

text \<open>
  With a scalar \<open>theta\<close> the matrix \<open>M\<close> has shape (2, 2) and \<open>np.dot\<close> is the matrix
  product with the (2, n) array of the velocities. With an array \<open>theta\<close> of length N,
  \<open>cosT\<close> and \<open>sinT\<close> are arrays and \<open>M\<close> has shape (2, 2, N): \<open>np.dot\<close> then contracts the
  axis of the angles with the axis of length 2 that separates \<open>u\<close> from \<open>v\<close>, and raises
  ValueError when N is not 2. Velocity arrays of different lengths do not form a
  rectangular array; the model reports them as ValueError.
\<close>

definition magnetic_correction ::
  "real nparg \<Rightarrow> real nparg \<Rightarrow> real nparg \<Rightarrow> pyerr + ndarray \<times> ndarray" where
  "magnetic_correction theta u v =
     (let u1 = atleast_1d u; v1 = atleast_1d v; B = [u1, v1]; n = length u1 in
      if length u1 \<noteq> length v1 then Inl (ValueError ''setting an array element with a sequence'')
      else case theta of
        Scalar t \<Rightarrow>
          (let theta_rad = radians t; cosT = cos theta_rad; sinT = sin theta_rad;
               M = [[cosT, sinT], [-1 * sinT, cosT]];
               cor = map (\<lambda>row. dot_inner row B n) M
           in Inr (Arr1 (cor ! 0), Arr1 (cor ! 1)))
      | Array ts \<Rightarrow>
          (let theta_rad = map radians ts; cosT = map cos theta_rad; sinT = map sin theta_rad;
               M = [[cosT, sinT], [map (\<lambda>s. -1 * s) sinT, cosT]]
           in if length ts \<noteq> length B then Inl (ValueError ''shapes not aligned'')
              else (let cor = map (map (\<lambda>a. dot_inner a B n)) M
                    in Inr (Arr2 (cor ! 0), Arr2 (cor ! 1)))))"

section \<open>\<open>bilinear_interpolation\<close>\<close>

text \<open>
  Division of two float64 scalars of numpy: a zero divisor gives no exception (only a
  warning) but a non-finite result. The divisor of the function is a sum with \<open>+ 0.0\<close>,
  so a zero divisor is the positive zero.
\<close>

definition np_true_divide :: "real \<Rightarrow> real \<Rightarrow> npfloat" where
  "np_true_divide a b =
     (if b \<noteq> 0 then Fin (a / b)
      else if a = 0 then NaN
      else if 0 < a then PosInf else NegInf)"

text \<open>
  \<open>points\<close> is an array of rows \<open>(x, y, value)\<close>. Line 400 of the source binds a sorted
  copy of it to \<open>pts\<close>; \<open>pts\<close> is never read, and line 401 unpacks \<open>points\<close> itself, in
  the order given. Unpacking anything but four rows raises ValueError.
\<close>

definition bilinear_interpolation ::
  "real \<Rightarrow> real \<Rightarrow> (real \<times> real \<times> real) list \<Rightarrow> pyerr + npfloat" where
  "bilinear_interpolation x y points =
     (case points of
        [(x1, y1, q11), (x1', y2, q12), (x2, y1', q21), (x2', y2', q22)] \<Rightarrow>
          if x1 \<noteq> x1' \<or> x2 \<noteq> x2' \<or> y1 \<noteq> y1' \<or> y2 \<noteq> y2'
          then Inl (ValueError ''points do not form a rectangle'')
          else if \<not> (x1 \<le> x \<and> x \<le> x2) \<or> \<not> (y1 \<le> y \<and> y \<le> y2)
          then Inl (ValueError ''(x, y) not within the rectangle'')
          else Inr (np_true_divide
                 (q11 * (x2 - x) * (y2 - y) +
                  q21 * (x - x1) * (y2 - y) +
                  q12 * (x2 - x) * (y - y1) +
                  q22 * (x - x1) * (y - y1))
                 ((x2 - x1) * (y2 - y1) + 0))
      | _ \<Rightarrow> Inl (ValueError ''wrong number of values to unpack''))"

section \<open>\<open>set_wmm_model\<close>\<close>

text \<open>The conversion \<open>%4d\<close>: decimal digits, right-justified with blanks to width 4.\<close>

fun digits10 :: "nat \<Rightarrow> string" where
  "digits10 n =
     (if n < 10 then [''0123456789'' ! n]
      else digits10 (n div 10) @ [''0123456789'' ! (n mod 10)])"

declare digits10.simps [simp del]

definition fmt_4d :: "int \<Rightarrow> string" where
  "fmt_4d year =
     (let s = (if year < 0 then ''-'' @ digits10 (nat (- year)) else digits10 (nat year))
      in replicate (4 - length s) (CHR '' '') @ s)"

text \<open>
  The operator \<open>%\<close> on a format string: the number of conversions in the format must be
  the number of arguments, or TypeError is raised. A right operand that is not a tuple
  is one argument. (The formats of this module contain no \<open>%%\<close>.)
\<close>

definition count_conversions :: "string \<Rightarrow> nat" where
  "count_conversions fmt = length (filter (\<lambda>c. c = CHR ''%'') fmt)"

definition py_format :: "string \<Rightarrow> nat \<Rightarrow> pyerr + unit" where
  "py_format fmt nargs =
     (if nargs < count_conversions fmt
      then Inl (TypeError ''not enough arguments for format string'')
      else if count_conversions fmt < nargs
      then Inl (TypeError ''not all arguments converted during string formatting'')
      else Inr ())"

text \<open>
  The package of the module on the file system: the directory of the module and the
  names of the resource files that exist in it.
\<close>

record package =
  module_path :: string
  resources :: "string list"

text \<open>
  \<open>pkg_resources.resource_filename(__name__, resource_name)\<close> for a package given by
  the name of its module: the provider joins the directory of the module with the name
  of the resource. It does not test that the file exists, and it raises no
  \<open>ResolutionError\<close>.
\<close>

definition default_resource_filename :: "package \<Rightarrow> string \<Rightarrow> pyerr + string" where
  "default_resource_filename pkg resource_name = Inr (module_path pkg @ ''/'' @ resource_name)"

text \<open>
  In \<open>set_wmm_model\<close> the parameter \<open>resource_filename\<close> stands for
  \<open>pkg_resources.resource_filename(__name__, _)\<close>. In the handler of
  \<open>ResolutionError\<close> the argument of \<open>print\<close> is \<open>"..." % e\<close>, with \<open>year\<close> a second
  argument of \<open>print\<close>: the format is applied to the one argument \<open>e\<close>. When the handler
  finishes, the function returns \<open>None\<close>.
\<close>

definition set_wmm_model :: "(string \<Rightarrow> pyerr + string) \<Rightarrow> int \<Rightarrow> pyerr + string option" where
  "set_wmm_model resource_filename year =
     (let cof_file = ''WMM'' @ fmt_4d year @ ''.COF'' in
      case resource_filename cof_file of
        Inr wmm_model \<Rightarrow> Inr (Some wmm_model)
      | Inl ResolutionError \<Rightarrow>
          (case py_format
                  ''Error Type %s: Unable to find the WMM%4d.COF Coefficients file'' 1 of
             Inl e \<Rightarrow> Inl e
           | Inr _ \<Rightarrow> Inr None)
      | Inl e \<Rightarrow> Inl e)"

section \<open>\<open>wmm_declination\<close>, \<open>wmm_declination_remod\<close> and \<open>magnetic_declination\<close>\<close>

text \<open>
  The geomagnetic model is the class \<open>WMM\<close> of \<open>ion_functions.data.wmm\<close>: its
  constructor and its method \<open>declination(lat, lon, z, date)\<close> are parameters of the
  model, as is the calendar arithmetic of \<open>datetime.utcfromtimestamp(_).date()\<close> on a
  finite timestamp.
\<close>

type_synonym 'd wmm = "npfloat \<Rightarrow> npfloat \<Rightarrow> npfloat \<Rightarrow> 'd \<Rightarrow> pyerr + npfloat"

text \<open>Float arithmetic with a finite constant, and comparison with an integer.\<close>

fun fl_minus :: "npfloat \<Rightarrow> real \<Rightarrow> npfloat" where
  "fl_minus (Fin r) c = Fin (r - c)"
| "fl_minus x c = x"

fun fl_divide :: "npfloat \<Rightarrow> real \<Rightarrow> npfloat" where
  "fl_divide (Fin r) c = Fin (r / c)"
| "fl_divide x c = x"

fun fl_gt :: "npfloat \<Rightarrow> int \<Rightarrow> bool" where
  "fl_gt (Fin r) m = (of_int m < r)"
| "fl_gt PosInf m = True"
| "fl_gt x m = False"

fun fl_times :: "int \<Rightarrow> npfloat \<Rightarrow> npfloat" where
  "fl_times k (Fin r) = Fin (of_int k * r)"
| "fl_times k NaN = NaN"
| "fl_times k PosInf = (if 0 < k then PosInf else if k < 0 then NegInf else NaN)"
| "fl_times k NegInf = (if 0 < k then NegInf else if k < 0 then PosInf else NaN)"

text \<open>
  \<open>datetime.datetime.utcfromtimestamp\<close> raises ValueError on a NaN timestamp and
  OverflowError on an infinite one; on a finite one the result is the library's,
  \<open>calendar\<close>.
\<close>

definition utcfromtimestamp_date :: "(real \<Rightarrow> pyerr + 'd) \<Rightarrow> npfloat \<Rightarrow> pyerr + 'd" where
  "utcfromtimestamp_date calendar t =
     (case t of
        Fin r \<Rightarrow> calendar r
      | NaN \<Rightarrow> Inl (ValueError ''timestamp out of range'')
      | PosInf \<Rightarrow> Inl OverflowError
      | NegInf \<Rightarrow> Inl OverflowError)"

text \<open>
  The test of line 301 is \<^verbatim>\<open>z > 0 & zflag == -1\<close>. In Python \<open>&\<close> binds tighter than
  the comparisons, and the comparisons chain: the test is
  \<open>z > (0 & zflag) and (0 & zflag) == -1\<close>.
\<close>

definition wmm_declination_remod ::
  "(real \<Rightarrow> pyerr + 'd) \<Rightarrow> npfloat \<Rightarrow> npfloat \<Rightarrow> npfloat \<Rightarrow> 'd wmm \<Rightarrow> npfloat \<Rightarrow> int
     \<Rightarrow> pyerr + npfloat" where
  "wmm_declination_remod calendar lat lon ntp_timestamp wmm z zflag =
     (let unix_timestamp = fl_minus ntp_timestamp 2208988800 in
      case utcfromtimestamp_date calendar unix_timestamp of
        Inl e \<Rightarrow> Inl e
      | Inr dates \<Rightarrow>
          (let z1 = fl_divide z 1000;
               m = (0 :: int) AND zflag;
               z2 = (if fl_gt z1 m \<and> m = - 1 then fl_times zflag z1 else z1)
           in wmm lat lon z2 dates))"

definition wmm_declination ::
  "(string \<Rightarrow> pyerr + string) \<Rightarrow> (string option \<Rightarrow> pyerr + 'd wmm) \<Rightarrow> (real \<Rightarrow> pyerr + 'd)
     \<Rightarrow> npfloat \<Rightarrow> npfloat \<Rightarrow> npfloat \<Rightarrow> npfloat \<Rightarrow> int \<Rightarrow> pyerr + npfloat" where
  "wmm_declination resource_filename WMM calendar lat lon ntp_timestamp z zflag =
     (let unix_timestamp = fl_minus ntp_timestamp 2208988800 in
      case utcfromtimestamp_date calendar unix_timestamp of
        Inl e \<Rightarrow> Inl e
      | Inr dates \<Rightarrow>
          (case set_wmm_model resource_filename 2010 of
             Inl e \<Rightarrow> Inl e
           | Inr wmm_model \<Rightarrow>
               (case WMM wmm_model of
                  Inl e \<Rightarrow> Inl e
                | Inr wmm \<Rightarrow>
                    (let z1 = fl_divide z 1000;
                         m = (0 :: int) AND zflag;
                         z2 = (if fl_gt z1 m \<and> m = - 1 then fl_times zflag z1 else z1)
                     in wmm lat lon z2 dates))))"

text \<open>
  \<open>np.vectorize\<close> broadcasts its arguments to one shape (an array of length 1 and a
  scalar are repeated), refuses inputs of size 0, and calls the function on the
  elements in order; an exception of a call ends the whole evaluation.
\<close>

fun arg_shape :: "'a nparg \<Rightarrow> nat option" where
  "arg_shape (Scalar x) = None"
| "arg_shape (Array xs) = Some (length xs)"

definition broadcast_shape :: "nat option list \<Rightarrow> pyerr + nat option" where
  "broadcast_shape shapes =
     (let lens = concat (map (\<lambda>s. case s of None \<Rightarrow> [] | Some l \<Rightarrow> [l]) shapes) in
      if lens = [] then Inr None
      else (let n = (case filter (\<lambda>l. l \<noteq> 1) lens of [] \<Rightarrow> 1 | l # _ \<Rightarrow> l) in
            if list_all (\<lambda>l. l = 1 \<or> l = n) lens then Inr (Some n)
            else Inl (ValueError ''shape mismatch'')))"

fun broadcast_to :: "nat \<Rightarrow> 'a nparg \<Rightarrow> 'a list" where
  "broadcast_to n (Scalar x) = replicate n x"
| "broadcast_to n (Array xs) = (case xs of [x] \<Rightarrow> replicate n x | _ \<Rightarrow> xs)"

fun map_raise :: "('a \<Rightarrow> pyerr + 'b) \<Rightarrow> 'a list \<Rightarrow> pyerr + 'b list" where
  "map_raise f [] = Inr []"
| "map_raise f (x # xs) =
     (case f x of
        Inl e \<Rightarrow> Inl e
      | Inr y \<Rightarrow> (case map_raise f xs of Inl e \<Rightarrow> Inl e | Inr ys \<Rightarrow> Inr (y # ys)))"

definition magnetic_declination ::
  "(string \<Rightarrow> pyerr + string) \<Rightarrow> (string option \<Rightarrow> pyerr + 'd wmm) \<Rightarrow> (real \<Rightarrow> pyerr + 'd)
     \<Rightarrow> npfloat nparg \<Rightarrow> npfloat nparg \<Rightarrow> npfloat nparg \<Rightarrow> npfloat nparg \<Rightarrow> int
     \<Rightarrow> pyerr + npfloat nparg" where
  "magnetic_declination resource_filename WMM calendar lat lon ntp_timestamp z zflag =
     (case set_wmm_model resource_filename 2010 of
        Inl e \<Rightarrow> Inl e
      | Inr wmm_model \<Rightarrow>
     (case WMM wmm_model of
        Inl e \<Rightarrow> Inl e
      | Inr wmm \<Rightarrow>
     (case broadcast_shape
             [arg_shape lat, arg_shape lon, arg_shape ntp_timestamp, arg_shape z] of
        Inl e \<Rightarrow> Inl e
      | Inr shape \<Rightarrow>
          (let n = (case shape of None \<Rightarrow> 1 | Some k \<Rightarrow> k) in
           if n = 0 then Inl (ValueError ''cannot call vectorize on size 0 inputs'')
           else (case map_raise
                        (\<lambda>(la, lo, t, d). wmm_declination_remod calendar la lo t wmm d zflag)
                        (zip (broadcast_to n lat) (zip (broadcast_to n lon)
                          (zip (broadcast_to n ntp_timestamp) (broadcast_to n z)))) of
                   Inl e \<Rightarrow> Inl e
                 | Inr mag_dec \<Rightarrow>
                     Inr (case shape of None \<Rightarrow> Scalar (hd mag_dec)
                          | Some k \<Rightarrow> Array mag_dec))))))"

section \<open>Properties\<close>

lemma NTP_DELTA_value: "NTP_DELTA = 2208988800"
  by (simp add: NTP_DELTA_def SYSTEM_EPOCH_def NTP_EPOCH_def gmtime0_def toordinal_def
      days_before_year_def days_before_month_def)

text \<open>
  Claim C8. For every timestamp \<open>t\<close>, \<open>ntp_to_unix_time t\<close> is \<open>t\<close> minus the constant
  2208988800, the number of seconds from 1900-01-01 to 1970-01-01 as the function
  computes it from the two dates; at 3574792037.958 the result is within \<open>1e-6\<close> of
  1365803237.958 (over the reals the two are equal).
\<close>

theorem ntp_to_unix_time_offset:
  "ntp_to_unix_time t = t - 2208988800 \<and>
   \<bar>ntp_to_unix_time 3574792037.958 - 1365803237.958\<bar> \<le> 1 / 10 ^ 6"
  by (simp add: ntp_to_unix_time_def NTP_DELTA_value)




text \<open>
  Claim C10. A negative index \<open>i\<close> with \<open>-n \<le> i < 0\<close> on an array of length \<open>n\<close> is
  accepted: the result is the element at position \<open>n + i\<close>.
\<close>

theorem extract_parameter_negative:
  "xs \<noteq> [] \<Longrightarrow> - int (length xs) \<le> i \<Longrightarrow> i < 0 \<Longrightarrow>
   extract_parameter xs i = Inr (xs ! nat (int (length xs) + i))"
  by (simp add: extract_parameter_def)

theorem extract_parameter_negative_witness:
  "extract_parameter [34, 67, 12, 15, 89, 100, 54, 36 :: int] (- 2) = Inr 54"
  using extract_parameter_negative [of "[34, 67, 12, 15, 89, 100, 54, 36 :: int]" "- 2"]
  by simp

lemma dot_inner_pair:
  "length u = n \<Longrightarrow> length v = n \<Longrightarrow>
   dot_inner [a, b] [u, v] n = map2 (\<lambda>x y. a * x + b * y) u v"
  by (rule nth_equalityI) (simp_all add: dot_inner_def)

lemma magnetic_correction_scalar:
  "length (atleast_1d u) = length (atleast_1d v) \<Longrightarrow>
   magnetic_correction (Scalar t) u v =
     Inr (Arr1 (map2 (\<lambda>x y. cos (radians t) * x + sin (radians t) * y) (atleast_1d u) (atleast_1d v)),
          Arr1 (map2 (\<lambda>x y. - sin (radians t) * x + cos (radians t) * y) (atleast_1d u) (atleast_1d v)))"
  by (simp add: magnetic_correction_def Let_def dot_inner_pair)

lemma rotate_back:
  fixes c s :: real
  assumes "c * c + s * s = 1"
  shows "c * (c * x + s * y) + - s * (- s * x + c * y) = x"
    and "- (- s) * (c * x + s * y) + c * (- s * x + c * y) = y"
proof -
  have "c * (c * x + s * y) + - s * (- s * x + c * y) = (c * c + s * s) * x"
    by (simp add: algebra_simps)
  then show "c * (c * x + s * y) + - s * (- s * x + c * y) = x" using assms by simp
  have "- (- s) * (c * x + s * y) + c * (- s * x + c * y) = (c * c + s * s) * y"
    by (simp add: algebra_simps)
  then show "- (- s) * (c * x + s * y) + c * (- s * x + c * y) = y" using assms by simp
qed


text \<open>
  Claim C6, amended. For a scalar \<open>theta\<close> in degrees and velocity arrays of the same
  length, \<open>magnetic_correction\<close> returns, pair by pair,
  \<open>east' = east * cos \<theta> + north * sin \<theta>\<close> and \<open>north' = - east * sin \<theta> + north * cos \<theta>\<close>
  with \<open>\<theta>\<close> the angle in radians. An array of angles is not applied per element: unless
  it holds exactly two angles, \<open>np.dot\<close> raises ValueError.
\<close>

theorem magnetic_correction_scalar_theta:
  "length u = length v \<Longrightarrow>
   magnetic_correction (Scalar theta) (Array u) (Array v) =
     Inr (Arr1 (map2 (\<lambda>east north. east * cos (radians theta) + north * sin (radians theta)) u v),
          Arr1 (map2 (\<lambda>east north. - east * sin (radians theta) + north * cos (radians theta)) u v)) \<and>
   (length thetas \<noteq> 2 \<longrightarrow>
      magnetic_correction (Array thetas) (Array u) (Array v) = Inl (ValueError ''shapes not aligned''))"
  by (simp add: magnetic_correction_scalar mult.commute)
    (simp add: magnetic_correction_def Let_def)

theorem magnetic_correction_scalar_theta_witness:
  "magnetic_correction (Scalar 180) (Array [1, 2]) (Array [3, 4]) =
     Inr (Arr1 [- 1, - 2], Arr1 [- 3, - 4]) \<and>
   magnetic_correction (Array [0]) (Array [1, 2]) (Array [3, 4]) =
     Inl (ValueError ''shapes not aligned'')"
  using magnetic_correction_scalar_theta [of "[1, 2]" "[3, 4]" 180 "[0]"]
  by (simp add: radians_def)

text \<open>
  Claim C6 as stated fails for an array \<open>theta\<close>. Three angles of zero degrees with
  three velocity pairs raise ValueError; two angles of zero degrees with two pairs
  return 2 by 2 matrices that mix the pairs, where the rotation by zero degrees of each
  pair would be the pair itself.
\<close>

theorem magnetic_correction_array_theta_counterexample:
  "magnetic_correction (Array [0, 0, 0]) (Array [1, 2, 3]) (Array [4, 5, 6]) =
     Inl (ValueError ''shapes not aligned'') \<and>
   magnetic_correction (Array [0, 0]) (Array [1, 2]) (Array [3, 4]) =
     Inr (Arr2 [[4, 6], [0, 0]], Arr2 [[0, 0], [4, 6]])"
  by (simp add: magnetic_correction_def Let_def dot_inner_def radians_def)

text \<open>
  Claim C7. The rotation is orthogonal: for every angle \<open>theta\<close> and velocity arrays of
  the same length, \<open>magnetic_correction\<close> with \<open>theta\<close> succeeds, and applying it with
  \<open>- theta\<close> to its result returns the original velocities (over the reals).
\<close>

theorem magnetic_correction_inverse:
  "length u = length v \<Longrightarrow>
   \<exists>u' v'. magnetic_correction (Scalar theta) (Array u) (Array v) = Inr (Arr1 u', Arr1 v') \<and>
     magnetic_correction (Scalar (- theta)) (Array u') (Array v') = Inr (Arr1 u, Arr1 v)"
proof -
  assume len: "length u = length v"
  define c where "c = cos (radians theta)"
  define s where "s = sin (radians theta)"
  define u' where "u' = map2 (\<lambda>x y. c * x + s * y) u v"
  define v' where "v' = map2 (\<lambda>x y. - s * x + c * y) u v"
  have unit: "c * c + s * s = 1"
    using sin_cos_squared_add3 [of "radians theta"] by (simp add: c_def s_def add.commute)
  have neg: "cos (radians (- theta)) = c" "sin (radians (- theta)) = - s"
    by (simp_all add: radians_def c_def s_def)
  have fwd: "magnetic_correction (Scalar theta) (Array u) (Array v) = Inr (Arr1 u', Arr1 v')"
    using len by (simp add: magnetic_correction_scalar u'_def v'_def c_def s_def)
  have len': "length u' = length u" "length v' = length u"
    using len by (simp_all add: u'_def v'_def)
  have "map2 (\<lambda>x y. c * x + - s * y) u' v' = u"
    using len rotate_back(1) [OF unit]
    by (intro nth_equalityI) (simp_all add: u'_def v'_def)
  moreover have "map2 (\<lambda>x y. - (- s) * x + c * y) u' v' = v"
    using len rotate_back(2) [OF unit]
    by (intro nth_equalityI) (simp_all add: u'_def v'_def)
  ultimately have "magnetic_correction (Scalar (- theta)) (Array u') (Array v') =
      Inr (Arr1 u, Arr1 v)"
    using len' by (simp add: magnetic_correction_scalar neg)
  with fwd show ?thesis by blast
qed

theorem magnetic_correction_inverse_witness:
  "magnetic_correction (Scalar (- 180)) (Array [- 1, - 2]) (Array [- 3, - 4]) =
     Inr (Arr1 [1, 2], Arr1 [3, 4])"
proof -
  have "length [1, 2 :: real] = length [3, 4 :: real]" by simp
  from magnetic_correction_inverse [OF this, of 180] obtain u' v' where
    a: "magnetic_correction (Scalar 180) (Array [1, 2]) (Array [3, 4]) = Inr (Arr1 u', Arr1 v')"
    and b: "magnetic_correction (Scalar (- 180)) (Array u') (Array v') =
      Inr (Arr1 [1, 2], Arr1 [3, 4])"
    by blast
  have "magnetic_correction (Scalar 180) (Array [1, 2]) (Array [3, 4]) =
      Inr (Arr1 [- 1, - 2], Arr1 [- 3, - 4])"
    by (simp add: magnetic_correction_scalar radians_def)
  with a have "u' = [- 1, - 2]" "v' = [- 3, - 4]" by simp_all
  with b show ?thesis by simp
qed

lemma bilinear_interpolation_sorted:
  "bilinear_interpolation x y [(x1, y1, q11), (x1, y2, q12), (x2, y1, q21), (x2, y2, q22)] =
     (if x1 \<le> x \<and> x \<le> x2 \<and> y1 \<le> y \<and> y \<le> y2
      then Inr (np_true_divide
             (q11 * (x2 - x) * (y2 - y) + q21 * (x - x1) * (y2 - y) +
              q12 * (x2 - x) * (y - y1) + q22 * (x - x1) * (y - y1))
             ((x2 - x1) * (y2 - y1)))
      else Inl (ValueError ''(x, y) not within the rectangle''))"
  by (simp add: bilinear_interpolation_def)

text \<open>
  Claim C4, evaluated at the example of the docstring. The four samples of the docstring
  form a rectangle, but in the order the docstring gives them the function raises
  ValueError: the sorted copy is not the one that is unpacked. Only in the order sorted by
  x and then by y does the call return 165.
\<close>

theorem bilinear_interpolation_docstring_order:
  "bilinear_interpolation 12 5.5 [(10, 4, 100), (20, 4, 200), (10, 6, 150), (20, 6, 300)] =
     Inl (ValueError ''points do not form a rectangle'') \<and>
   bilinear_interpolation 12 5.5 [(10, 4, 100), (10, 6, 150), (20, 4, 200), (20, 6, 300)] =
     Inr (Fin 165)"
  by (simp add: bilinear_interpolation_def np_true_divide_def)

theorem bilinear_interpolation_docstring_order_witness:
  "bilinear_interpolation 12 5.5 [(10, 4, 100), (20, 4, 200), (10, 6, 150), (20, 6, 300)] \<noteq>
     Inr (Fin 165)"
  using bilinear_interpolation_docstring_order by simp

text \<open>
  Claim C5, amended. For four samples, in the order the function unpacks them, that form
  a rectangle of zero width or zero height, no error names the degenerate rectangle:
  when the query point passes the containment test the numerator and the area are both
  zero and the division returns NaN; otherwise the containment test raises ValueError.
\<close>

theorem bilinear_interpolation_degenerate:
  "x1 = x2 \<or> y1 = y2 \<Longrightarrow>
   bilinear_interpolation x y [(x1, y1, q11), (x1, y2, q12), (x2, y1, q21), (x2, y2, q22)] =
     (if x1 \<le> x \<and> x \<le> x2 \<and> y1 \<le> y \<and> y \<le> y2 then Inr NaN
      else Inl (ValueError ''(x, y) not within the rectangle''))"
  by (auto simp add: bilinear_interpolation_sorted np_true_divide_def)

theorem bilinear_interpolation_degenerate_witness:
  "bilinear_interpolation 10 5 [(10, 4, 100), (10, 6, 150), (10, 4, 200), (10, 6, 300)] = Inr NaN"
  using bilinear_interpolation_degenerate [of 10 10 4 6 10 5 100 150 200 300]
  by simp

text \<open>
  Claim C5 as stated fails: a rectangle of zero height with the query point on it
  returns NaN and raises nothing.
\<close>

theorem bilinear_interpolation_degenerate_counterexample:
  "bilinear_interpolation 15 4 [(10, 4, 100), (10, 4, 150), (20, 4, 200), (20, 4, 300)] = Inr NaN"
  by (simp add: bilinear_interpolation_def np_true_divide_def)

lemma fmt_4d_2010: "fmt_4d 2010 = ''2010''"
  by (simp add: fmt_4d_def digits10.simps)

lemma print_format_raises:
  "py_format ''Error Type %s: Unable to find the WMM%4d.COF Coefficients file'' 1 =
     Inl (TypeError ''not enough arguments for format string'')"
  by (simp add: py_format_def count_conversions_def)

text \<open>
  Claim C3, evaluated on a package without the coefficient file of the year. The lookup
  only builds the path of the resource, so \<open>set_wmm_model\<close> raises nothing: it returns
  the path of a file that does not exist.
\<close>

theorem set_wmm_model_absent:
  "''WMM'' @ fmt_4d year @ ''.COF'' \<notin> set (resources pkg) \<Longrightarrow>
   set_wmm_model (default_resource_filename pkg) year =
     Inr (Some (module_path pkg @ ''/'' @ ''WMM'' @ fmt_4d year @ ''.COF''))"
  by (simp add: set_wmm_model_def default_resource_filename_def)

theorem set_wmm_model_absent_witness:
  "set_wmm_model
     (default_resource_filename
        \<lparr>module_path = ''ion_functions/data'', resources = [''WMM2010.COF'']\<rparr>) 2015 =
   Inr (Some ''ion_functions/data/WMM2015.COF'')"
  using set_wmm_model_absent
    [of 2015 "\<lparr>module_path = ''ion_functions/data'', resources = [''WMM2010.COF'']\<rparr>"]
  by (simp add: fmt_4d_def digits10.simps)

lemma wmm_declination_remod_depth:
  "wmm_declination_remod calendar lat lon ntp_timestamp wmm z zflag =
     (case utcfromtimestamp_date calendar (fl_minus ntp_timestamp 2208988800) of
        Inl e \<Rightarrow> Inl e
      | Inr dates \<Rightarrow> wmm lat lon (fl_divide z 1000) dates)"
  by (simp add: wmm_declination_remod_def Let_def cong: sum.case_cong)

text \<open>
  Claim C1, evaluated at a depth of 1000 m with the flag for below sea level (-1). The
  claim asks for the depth -1 km at the model call. In \<open>wmm_declination_remod\<close> and in
  \<open>wmm_declination\<close> the test of the sign flip is never true (\<open>0 & zflag\<close> is 0, and 0 is
  not -1), so the model is called with the depth +1 km.
\<close>

theorem depth_sign_not_flipped:
  "wmm_declination_remod calendar lat lon (Fin t) wmm (Fin 1000) (- 1) =
     (case calendar (t - 2208988800) of
        Inl e \<Rightarrow> Inl e
      | Inr dates \<Rightarrow> wmm lat lon (Fin 1) dates) \<and>
   wmm_declination resource_filename WMM calendar lat lon (Fin t) (Fin 1000) (- 1) =
     (case calendar (t - 2208988800) of
        Inl e \<Rightarrow> Inl e
      | Inr dates \<Rightarrow>
          (case set_wmm_model resource_filename 2010 of
             Inl e \<Rightarrow> Inl e
           | Inr wmm_model \<Rightarrow>
               (case WMM wmm_model of
                  Inl e \<Rightarrow> Inl e
                | Inr wmm \<Rightarrow> wmm lat lon (Fin 1) dates)))"
  by (simp add: wmm_declination_remod_def wmm_declination_def utcfromtimestamp_date_def Let_def
      cong: sum.case_cong)

theorem depth_sign_not_flipped_witness:
  "wmm_declination_remod (\<lambda>r. Inr \<lfloor>r / 86400\<rfloor>) (Fin 45) (Fin (- 128)) (Fin 3575053740)
     (\<lambda>lat lon z dates. Inr z) (Fin 1000) (- 1) = Inr (Fin 1)"
  using depth_sign_not_flipped [of "\<lambda>r. Inr \<lfloor>r / 86400\<rfloor>" "Fin 45" "Fin (- 128)" 3575053740
      "\<lambda>lat lon z dates. Inr z"]
  by simp

lemma map_raise_Inr:
  "map_raise f xs = Inr ys \<Longrightarrow>
   length ys = length xs \<and> (\<forall>i < length xs. f (xs ! i) = Inr (ys ! i))"
proof (induction xs arbitrary: ys)
  case Nil
  then show ?case by simp
next
  case (Cons x xs)
  from Cons.prems obtain y ys' where
    fx: "f x = Inr y" and rest: "map_raise f xs = Inr ys'" and ys: "ys = y # ys'"
    by (auto split: sum.splits)
  from Cons.IH [OF rest] have
    len: "length ys' = length xs" and nth: "\<forall>i < length xs. f (xs ! i) = Inr (ys' ! i)"
    by simp_all
  show ?case
  proof (intro conjI allI impI)
    show "length ys = length (x # xs)" using len ys by simp
  next
    fix i assume "i < length (x # xs)"
    then show "f ((x # xs) ! i) = Inr (ys ! i)"
      using fx nth ys by (cases i) simp_all
  qed
qed

lemma map_raise_Inl:
  "i < length xs \<Longrightarrow> f (xs ! i) = Inl e \<Longrightarrow> \<exists>e'. map_raise f xs = Inl e'"
proof (induction xs arbitrary: i)
  case Nil
  then show ?case by simp
next
  case (Cons x xs)
  show ?case
  proof (cases i)
    case 0
    with Cons.prems show ?thesis by simp
  next
    case (Suc j)
    with Cons.prems have "j < length xs" "f (xs ! j) = Inl e" by simp_all
    from Cons.IH [OF this] obtain e' where "map_raise f xs = Inl e'" ..
    then show ?thesis by (simp split: sum.splits)
  qed
qed

lemma map_raise_total:
  "\<forall>i < length xs. \<exists>y. f (xs ! i) = Inr y \<Longrightarrow> \<exists>ys. map_raise f xs = Inr ys"
proof (induction xs)
  case Nil
  then show ?case by simp
next
  case (Cons x xs)
  from Cons.prems have "\<exists>y. f ((x # xs) ! 0) = Inr y" by blast
  then obtain y where fx: "f x = Inr y" by auto
  have "\<forall>i < length xs. \<exists>y. f (xs ! i) = Inr y"
  proof (intro allI impI)
    fix i assume "i < length xs"
    then have "Suc i < length (x # xs)" by simp
    with Cons.prems have "\<exists>y. f ((x # xs) ! Suc i) = Inr y" by blast
    then show "\<exists>y. f (xs ! i) = Inr y" by simp
  qed
  from Cons.IH [OF this] obtain ys where "map_raise f xs = Inr ys" ..
  with fx show ?case by simp
qed

lemma broadcast_shape_same:
  "broadcast_shape [Some n, Some n, Some n, Some n] = Inr (Some n)"
  by (simp add: broadcast_shape_def)

lemma broadcast_to_same: "broadcast_to (length xs) (Array xs) = xs"
  by (cases xs; cases "tl xs") (auto split: list.splits)


lemma magnetic_declination_arrays:
  assumes "set_wmm_model resource_filename 2010 = Inr p" and "WMM p = Inr wmm"
    and "length lon = length lat" and "length ts = length lat" and "length z = length lat"
    and "lat \<noteq> []"
  shows "magnetic_declination resource_filename WMM calendar
           (Array lat) (Array lon) (Array ts) (Array z) zflag =
         (case map_raise (\<lambda>(la, lo, t, d). wmm_declination_remod calendar la lo t wmm d zflag)
                 (zip lat (zip lon (zip ts z))) of
            Inl e \<Rightarrow> Inl e
          | Inr mag_dec \<Rightarrow> Inr (Array mag_dec))"
proof -
  have "broadcast_to (length lat) (Array lat) = lat"
    "broadcast_to (length lat) (Array lon) = lon"
    "broadcast_to (length lat) (Array ts) = ts"
    "broadcast_to (length lat) (Array z) = z"
    using assms(3-5) broadcast_to_same [of lat] broadcast_to_same [of lon]
      broadcast_to_same [of ts] broadcast_to_same [of z]
    by (simp_all del: broadcast_to.simps)
  then show ?thesis
    using assms
    by (simp del: broadcast_to.simps add: magnetic_declination_def broadcast_shape_same
        cong: sum.case_cong)
qed

lemma remod_element:
  "wmm_declination_remod calendar la lo t wmm d zflag =
     (case t of
        Fin r \<Rightarrow> (case calendar (r - 2208988800) of
                    Inl e \<Rightarrow> Inl e
                  | Inr dates \<Rightarrow> wmm la lo (fl_divide d 1000) dates)
      | NaN \<Rightarrow> Inl (ValueError ''timestamp out of range'')
      | PosInf \<Rightarrow> Inl OverflowError
      | NegInf \<Rightarrow> Inl OverflowError)"
  by (cases t) (simp_all add: wmm_declination_remod_depth utcfromtimestamp_date_def)

lemma set_wmm_model_2010:
  "set_wmm_model Inr 2010 = Inr (Some ''WMM2010.COF'')"
  by (simp add: set_wmm_model_def fmt_4d_2010)

text \<open>
  Claim C2, amended. In a batched evaluation over aligned arrays, with the model
  resolved: a NaN timestamp at an index makes the whole call raise; whenever the call
  returns, the output has the length of the inputs and its element at each index is the
  value the model returns for the latitude and longitude of that index, unchanged, the
  depth divided by 1000 and the date of the timestamp; it returns whenever every
  timestamp is finite and converts to a date and the model returns a value. A NaN depth
  stays NaN by the division, so a NaN latitude, longitude or depth reaches the model as
  NaN.
\<close>

theorem magnetic_declination_nan:
  assumes env: "set_wmm_model resource_filename 2010 = Inr p" "WMM p = Inr wmm"
    and len: "length lon = length lat" "length ts = length lat" "length z = length lat"
    and i: "i < length lat"
  shows "(ts ! i = NaN \<longrightarrow>
            (\<exists>e. magnetic_declination resource_filename WMM calendar
                   (Array lat) (Array lon) (Array ts) (Array z) zflag = Inl e)) \<and>
         (\<forall>out. magnetic_declination resource_filename WMM calendar
                   (Array lat) (Array lon) (Array ts) (Array z) zflag = Inr out \<longrightarrow>
            (\<exists>ys t dates. out = Array ys \<and> length ys = length lat \<and> ts ! i = Fin t \<and>
               calendar (t - 2208988800) = Inr dates \<and>
               wmm (lat ! i) (lon ! i) (fl_divide (z ! i) 1000) dates = Inr (ys ! i))) \<and>
         ((\<forall>j < length lat. \<exists>t dates r. ts ! j = Fin t \<and> calendar (t - 2208988800) = Inr dates \<and>
               wmm (lat ! j) (lon ! j) (fl_divide (z ! j) 1000) dates = Inr r) \<longrightarrow>
            (\<exists>ys. magnetic_declination resource_filename WMM calendar
                   (Array lat) (Array lon) (Array ts) (Array z) zflag = Inr (Array ys))) \<and>
         fl_divide NaN 1000 = NaN"
proof -
  let ?f = "\<lambda>(la, lo, t, d). wmm_declination_remod calendar la lo t wmm d zflag"
  let ?xs = "zip lat (zip lon (zip ts z))"
  let ?md = "magnetic_declination resource_filename WMM calendar
      (Array lat) (Array lon) (Array ts) (Array z) zflag"
  from i have ne: "lat \<noteq> []" by auto
  have md: "?md = (case map_raise ?f ?xs of Inl e \<Rightarrow> Inl e | Inr mag_dec \<Rightarrow> Inr (Array mag_dec))"
    using env len ne by (rule magnetic_declination_arrays)
  have lxs: "length ?xs = length lat" using len by simp
  have xi: "?xs ! i = (lat ! i, lon ! i, ts ! i, z ! i)" using len i by simp
  have fi: "?f (?xs ! i) = wmm_declination_remod calendar (lat ! i) (lon ! i) (ts ! i) wmm (z ! i) zflag"
    by (simp add: xi)
  have nan: "ts ! i = NaN \<longrightarrow> (\<exists>e. ?md = Inl e)"
  proof
    assume "ts ! i = NaN"
    then have "?f (?xs ! i) = Inl (ValueError ''timestamp out of range'')"
      unfolding fi by (simp add: remod_element)
    moreover have "i < length ?xs" using i len by simp
    ultimately obtain e' where "map_raise ?f ?xs = Inl e'"
      using map_raise_Inl [of i ?xs ?f] by blast
    then show "\<exists>e. ?md = Inl e" by (simp add: md)
  qed
  have ret: "\<forall>out. ?md = Inr out \<longrightarrow>
      (\<exists>ys t dates. out = Array ys \<and> length ys = length lat \<and> ts ! i = Fin t \<and>
         calendar (t - 2208988800) = Inr dates \<and>
         wmm (lat ! i) (lon ! i) (fl_divide (z ! i) 1000) dates = Inr (ys ! i))"
  proof (intro allI impI)
    fix out assume "?md = Inr out"
    then obtain ys where ys: "map_raise ?f ?xs = Inr ys" and out: "out = Array ys"
      by (auto simp add: md split: sum.splits)
    have ilx: "i < length ?xs" using i len by simp
    from map_raise_Inr [OF ys] have
      lys': "length ys = length ?xs" and nth: "\<forall>j < length ?xs. ?f (?xs ! j) = Inr (ys ! j)"
      by blast+
    from lys' lxs have lys: "length ys = length lat" by (simp only:)
    from nth ilx have yi: "?f (?xs ! i) = Inr (ys ! i)" by blast
    from yi have el: "wmm_declination_remod calendar (lat ! i) (lon ! i) (ts ! i) wmm (z ! i) zflag =
        Inr (ys ! i)"
      unfolding fi .
    then obtain t where t: "ts ! i = Fin t"
      by (cases "ts ! i") (simp_all add: remod_element)
    with el obtain dates where d: "calendar (t - 2208988800) = Inr dates"
      and w: "wmm (lat ! i) (lon ! i) (fl_divide (z ! i) 1000) dates = Inr (ys ! i)"
      by (auto simp add: remod_element split: sum.splits)
    with out lys t show "\<exists>ys t dates. out = Array ys \<and> length ys = length lat \<and> ts ! i = Fin t \<and>
         calendar (t - 2208988800) = Inr dates \<and>
         wmm (lat ! i) (lon ! i) (fl_divide (z ! i) 1000) dates = Inr (ys ! i)"
      by blast
  qed
  have tot: "(\<forall>j < length lat. \<exists>t dates r. ts ! j = Fin t \<and>
        calendar (t - 2208988800) = Inr dates \<and>
        wmm (lat ! j) (lon ! j) (fl_divide (z ! j) 1000) dates = Inr r) \<longrightarrow>
      (\<exists>ys. ?md = Inr (Array ys))"
  proof
    assume ok: "\<forall>j < length lat. \<exists>t dates r. ts ! j = Fin t \<and>
        calendar (t - 2208988800) = Inr dates \<and>
        wmm (lat ! j) (lon ! j) (fl_divide (z ! j) 1000) dates = Inr r"
    have "\<forall>j < length ?xs. \<exists>y. ?f (?xs ! j) = Inr y"
    proof (intro allI impI)
      fix j assume "j < length ?xs"
      with lxs have j: "j < length lat" by (simp only:)
      with ok obtain t dates r where "ts ! j = Fin t" "calendar (t - 2208988800) = Inr dates"
        "wmm (lat ! j) (lon ! j) (fl_divide (z ! j) 1000) dates = Inr r" by blast
      then have "wmm_declination_remod calendar (lat ! j) (lon ! j) (ts ! j) wmm (z ! j) zflag = Inr r"
        by (simp add: remod_element)
      moreover have "?xs ! j = (lat ! j, lon ! j, ts ! j, z ! j)" using len j by simp
      ultimately show "\<exists>y. ?f (?xs ! j) = Inr y" by simp
    qed
    from map_raise_total [OF this] obtain ys where "map_raise ?f ?xs = Inr ys" ..
    then show "\<exists>ys. ?md = Inr (Array ys)" by (simp add: md)
  qed
  have "fl_divide NaN 1000 = NaN" by simp
  with nan ret tot show ?thesis by (intro conjI)
qed

theorem magnetic_declination_nan_witness:
  "magnetic_declination Inr
     (\<lambda>p. Inr (\<lambda>la lo d dates. Inr (if la = NaN \<or> lo = NaN \<or> d = NaN then NaN else Fin 16)))
     (\<lambda>r. Inr \<lfloor>r / 86400\<rfloor>)
     (Array [Fin 45, NaN, Fin 45]) (Array [Fin (- 128), Fin (- 128), Fin (- 128)])
     (Array [Fin 3575053740, Fin 3575053740, Fin 3575053740])
     (Array [Fin 0, Fin 0, NaN]) (- 1) =
   Inr (Array [Fin 16, NaN, NaN]) \<and>
   (\<exists>e. magnetic_declination Inr
     (\<lambda>p. Inr (\<lambda>la lo d dates. Inr (if la = NaN \<or> lo = NaN \<or> d = NaN then NaN else Fin 16)))
     (\<lambda>r. Inr \<lfloor>r / 86400\<rfloor>)
     (Array [Fin 45]) (Array [Fin (- 128)]) (Array [NaN]) (Array [Fin 0]) (- 1) = Inl e)"
proof -
  let ?rf = "Inr :: string \<Rightarrow> pyerr + string"
  let ?wmm = "\<lambda>la lo d (dates :: int).
      Inr (if la = NaN \<or> lo = NaN \<or> d = NaN then NaN else Fin 16) :: pyerr + npfloat"
  let ?WMM = "\<lambda>p :: string option. Inr ?wmm :: pyerr + int wmm"
  let ?cal = "\<lambda>r :: real. Inr \<lfloor>r / 86400\<rfloor> :: pyerr + int"
  have env: "set_wmm_model ?rf 2010 = Inr (Some ''WMM2010.COF'')"
    "?WMM (Some ''WMM2010.COF'') = Inr ?wmm"
    by (simp_all add: set_wmm_model_2010)
  have a: "\<exists>e. magnetic_declination ?rf ?WMM ?cal
      (Array [Fin 45]) (Array [Fin (- 128)]) (Array [NaN]) (Array [Fin 0]) (- 1) = Inl e"
    using magnetic_declination_nan [OF env, of "[Fin (- 128)]" "[Fin 45]" "[NaN]" "[Fin 0]" 0
        ?cal "- 1"]
    by simp
  have b: "magnetic_declination ?rf ?WMM ?cal
      (Array [Fin 45, NaN, Fin 45]) (Array [Fin (- 128), Fin (- 128), Fin (- 128)])
      (Array [Fin 3575053740, Fin 3575053740, Fin 3575053740])
      (Array [Fin 0, Fin 0, NaN]) (- 1) = Inr (Array [Fin 16, NaN, NaN])"
    using magnetic_declination_nan [OF env, of "[Fin (- 128), Fin (- 128), Fin (- 128)]"
        "[Fin 45, NaN, Fin 45]" "[Fin 3575053740, Fin 3575053740, Fin 3575053740]"
        "[Fin 0, Fin 0, NaN]" 1 ?cal "- 1"]
    by (simp add: magnetic_declination_def set_wmm_model_2010 broadcast_shape_def
        wmm_declination_remod_def utcfromtimestamp_date_def)
  from a b show ?thesis by blast
qed

text \<open>
  Claim C2 as stated fails for a NaN timestamp: with a model that returns NaN on any
  NaN argument, a batch whose second timestamp is NaN raises ValueError instead of
  returning NaN at the second index.
\<close>

theorem magnetic_declination_nan_timestamp_counterexample:
  "magnetic_declination Inr
     (\<lambda>p. Inr (\<lambda>la lo d dates. Inr (if la = NaN \<or> lo = NaN \<or> d = NaN then NaN else Fin 16)))
     (\<lambda>r. Inr \<lfloor>r / 86400\<rfloor>)
     (Array [Fin 45, Fin 45]) (Array [Fin (- 128), Fin (- 128)])
     (Array [Fin 3575053740, NaN]) (Array [Fin 0, Fin 1000]) (- 1) =
   Inl (ValueError ''timestamp out of range'')"
  by (simp add: magnetic_declination_def set_wmm_model_2010 broadcast_shape_def
      wmm_declination_remod_def utcfromtimestamp_date_def)

end
